theory Spec2Isabelle
  imports Complex_Main
begin

section \<open>Data model\<close>

text \<open>
  The calibration reads point clouds written by Spyral. A point cloud is a two-dimensional
  float array; \<open>pad_times\<close> reads three columns of every row: column 3 (amplitude),
  column 5 (pad id) and column 6 (time bucket). A row is modelled by a record of these
  three columns; the entries of a cloud are taken to be finite. Floats are modelled by the
  reals: rounding and overflow are left out, the special values \<open>nan\<close> and \<open>inf\<close>
  are added where the program can produce them (type \<open>fl\<close> below).
\<close>

definition NUM_CHANNELS :: nat where
  "NUM_CHANNELS = 10240"

record point =
  amp :: real
  pad :: real
  tb :: real

text \<open>One row of \<open>event_results\<close>: (time bucket, amplitude, hit).\<close>

type_synonym row = "real \<times> real \<times> real"

datatype error = ValueError | FitError

text \<open>
  \<open>int(x)\<close> in \<open>pad_times\<close>, which is compiled by \<open>@njit\<close>: the conversion of a 64-bit
  float to a 64-bit integer. It truncates toward zero; a value whose truncation does not
  fit into 64 bits is converted to \<open>-2^63\<close>.
\<close>

definition py_int :: "real \<Rightarrow> int" where
  "py_int x =
     (let t = (if 0 \<le> x then \<lfloor>x\<rfloor> else \<lceil>x\<rceil>)
      in if - (2 ^ 63) \<le> t \<and> t < 2 ^ 63 then t else - (2 ^ 63))"

text \<open>
  The row of a table of \<open>n\<close> rows that the index \<open>i\<close> addresses. The compiled loop adds
  \<open>n\<close> to a negative index and checks no bounds: an index outside \<open>[-n, n)\<close> addresses
  memory outside the table (\<open>None\<close>), and nothing is raised.
\<close>

definition row_of :: "nat \<Rightarrow> int \<Rightarrow> nat option" where
  "row_of n i =
     (let j = (if i < 0 then i + int n else i)
      in if 0 \<le> j \<and> j < int n then Some (nat j) else None)"

section \<open>pad\_times\<close>

text \<open>
  The body of the loop \<open>for point in pc\<close>, on the table built so far. When the index
  addresses no row of the table, the reads and the writes of either branch fall outside
  the table and the table is as before; the memory next to the table is not modelled.
\<close>

definition pad_step :: "row list \<Rightarrow> point \<Rightarrow> row list" where
  "pad_step event_results p =
     (let pad_id = py_int (pad p); t = py_int (tb p); a = amp p
      in case row_of (length event_results) pad_id of
           None \<Rightarrow> event_results
         | Some k \<Rightarrow>
             (if fst (event_results ! k) = 0
              then event_results[k := (of_int t, a, 1)]
              else if of_int t < fst (event_results ! k)
              then event_results[k := (of_int t, a, snd (snd (event_results ! k)))]
              else event_results))"

fun pad_loop :: "row list \<Rightarrow> point list \<Rightarrow> row list" where
  "pad_loop event_results [] = event_results"
| "pad_loop event_results (p # ps) = pad_loop (pad_step event_results p) ps"

definition pad_times :: "point list \<Rightarrow> row list" where
  "pad_times pc = pad_loop (replicate NUM_CHANNELS (0, 0, 0)) pc"



text \<open>The hit column only ever holds 0 or 1.\<close>

definition hit_flag_ok :: "row list \<Rightarrow> bool" where
  "hit_flag_ok er \<longleftrightarrow> (\<forall>r \<in> set er. snd (snd r) = 0 \<or> snd (snd r) = 1)"


section \<open>Floats and masked arrays\<close>

text \<open>
  A float that may be \<open>nan\<close> or \<open>inf\<close>. Negative infinity and negative zero do not
  arise: the only divisions by zero are \<open>x**-2\<close> and \<open>1.0 / sqrt(x)\<close>.
\<close>

datatype fl = Fin real | PInf | NaN

text \<open>\<open>x ** k\<close> for the two exponents the program uses, -2 and 2.\<close>

definition fl_power :: "fl \<Rightarrow> int \<Rightarrow> fl" where
  "fl_power x k =
     (case x of
        Fin r \<Rightarrow> if r = 0 \<and> k < 0 then PInf else Fin (r powi k)
      | PInf \<Rightarrow> if k < 0 then Fin 0 else PInf
      | NaN \<Rightarrow> NaN)"

definition fl_sqrt :: "fl \<Rightarrow> fl" where
  "fl_sqrt x = (case x of Fin r \<Rightarrow> if r < 0 then NaN else Fin (sqrt r) | PInf \<Rightarrow> PInf | NaN \<Rightarrow> NaN)"

text \<open>\<open>1.0 / x\<close> for \<open>x\<close> a square root (never negative).\<close>

definition fl_recip :: "fl \<Rightarrow> fl" where
  "fl_recip x = (case x of Fin r \<Rightarrow> if r = 0 then PInf else Fin (1 / r) | PInf \<Rightarrow> Fin 0 | NaN \<Rightarrow> NaN)"

definition fl_add :: "fl \<Rightarrow> fl \<Rightarrow> fl" where
  "fl_add x y =
     (case (x, y) of
        (Fin a, Fin b) \<Rightarrow> Fin (a + b)
      | (NaN, _) \<Rightarrow> NaN
      | (_, NaN) \<Rightarrow> NaN
      | _ \<Rightarrow> PInf)"

text \<open>\<open>x == y\<close> on floats: \<open>nan\<close> equals nothing.\<close>

definition fl_eq :: "fl \<Rightarrow> fl \<Rightarrow> bool" where
  "fl_eq x y \<longleftrightarrow> x \<noteq> NaN \<and> x = y"

definition np_sum :: "fl list \<Rightarrow> fl" where
  "np_sum xs = foldl fl_add (Fin 0) xs"

text \<open>\<open>np.mean\<close> of a row: \<open>nan\<close> on an empty row (0.0 / 0).\<close>

definition np_mean :: "real list \<Rightarrow> fl" where
  "np_mean xs = (if xs = [] then NaN else Fin (sum_list xs / real (length xs)))"

text \<open>
  \<open>scipy.stats.sem\<close> of a row (\<open>ddof = 1\<close>): the sample standard deviation over the
  square root of the row's length; \<open>nan\<close> when the row has fewer than two entries.
\<close>

definition sem :: "real list \<Rightarrow> fl" where
  "sem xs =
     (let n = length xs; m = sum_list xs / real n
      in if n \<le> 1 then NaN
         else Fin (sqrt (sum_list (map (\<lambda>x. (x - m)\<^sup>2) xs) / real (n - 1)) / sqrt (real n)))"

text \<open>
  An entry of a masked array is \<open>None\<close> when masked. The operations of \<open>numpy.ma\<close> mask
  an entry where an operand is masked or where the result is outside the operation's
  domain, so unmasked results are finite.
\<close>

definition filled :: "real \<Rightarrow> real option \<Rightarrow> real" where
  "filled v x = (case x of None \<Rightarrow> v | Some r \<Rightarrow> r)"

text \<open>\<open>np.ma.sum\<close> of a one-dimensional array: masked when every entry is.\<close>

definition ma_sum :: "real option list \<Rightarrow> real option" where
  "ma_sum xs = (if list_all (\<lambda>x. x = None) xs then None else Some (sum_list (map (filled 0) xs)))"

text \<open>\<open>np.ma.mean\<close> of one row: the sum of the unmasked entries over their count.\<close>

definition ma_mean :: "real option list \<Rightarrow> real option" where
  "ma_mean xs =
     (let cnt = length (filter (\<lambda>x. x \<noteq> None) xs)
      in if cnt = 0 then None else Some (sum_list (map (filled 0) xs) / real cnt))"

definition ma_divide :: "real option \<Rightarrow> real option \<Rightarrow> real option" where
  "ma_divide x y =
     (case (x, y) of (Some a, Some b) \<Rightarrow> if b = 0 then None else Some (a / b) | _ \<Rightarrow> None)"

definition ma_multiply :: "real option \<Rightarrow> real option \<Rightarrow> real option" where
  "ma_multiply x y = (case (x, y) of (Some a, Some b) \<Rightarrow> Some (a * b) | _ \<Rightarrow> None)"

definition ma_add :: "real option \<Rightarrow> real option \<Rightarrow> real option" where
  "ma_add x y = (case (x, y) of (Some a, Some b) \<Rightarrow> Some (a + b) | _ \<Rightarrow> None)"

definition ma_subtract :: "real option \<Rightarrow> real option \<Rightarrow> real option" where
  "ma_subtract x y = (case (x, y) of (Some a, Some b) \<Rightarrow> Some (a - b) | _ \<Rightarrow> None)"

definition ma_sqrt :: "real option \<Rightarrow> real option" where
  "ma_sqrt x = (case x of Some r \<Rightarrow> if r < 0 then None else Some (sqrt r) | None \<Rightarrow> None)"

text \<open>\<open>x ** k\<close> on a masked entry: a result that is not finite is masked.\<close>

definition ma_power :: "fl option \<Rightarrow> int \<Rightarrow> real option" where
  "ma_power x k =
     (case x of
        None \<Rightarrow> None
      | Some v \<Rightarrow> (case fl_power v k of Fin r \<Rightarrow> Some r | _ \<Rightarrow> None))"

text \<open>
  \<open>np.ma.average(a, weights=w)\<close>: a weight is masked where \<open>a\<close> is; the result is the sum
  of the products over the sum of the weights.
\<close>

definition ma_average :: "real option list \<Rightarrow> real option list \<Rightarrow> real option" where
  "ma_average a w =
     (let wgt = map2 (\<lambda>x y. if x = None then None else y) a w;
          scl = ma_sum wgt
      in ma_divide (ma_sum (map2 ma_multiply a wgt)) scl)"

section \<open>pulser\_results\<close>

text \<open>
  The point-cloud file of one run: the attributes \<open>min_event\<close> and \<open>max_event\<close> of its
  group \<open>cloud\<close> and the datasets \<open>cloud_<event>\<close>, absent where no cloud was stored.
  The workspace maps a run number to its file, if there is one.
\<close>

record run_file =
  min_event :: int
  max_event :: int
  clouds :: "int \<Rightarrow> point list option"

type_synonym workspace = "int \<Rightarrow> run_file option"

definition num_events :: "run_file \<Rightarrow> int" where
  "num_events rf = max_event rf - min_event rf + 1"

text \<open>
  One pass of the event loop: the slice \<open>run_results[:, idx, :]\<close>. An absent cloud
  leaves the zeros the array was created with.
\<close>

definition event_results_at :: "run_file \<Rightarrow> nat \<Rightarrow> row list" where
  "event_results_at rf idx =
     (case clouds rf (min_event rf + int idx) of
        None \<Rightarrow> replicate NUM_CHANNELS (0, 0, 0)
      | Some pc \<Rightarrow> pad_times pc)"

text \<open>
  \<open>run_results\<close>, as the list of its slices by event: entry \<open>idx\<close> is the table of
  event \<open>min_event + idx\<close>. \<open>np.zeros\<close> raises \<open>ValueError\<close> on a negative dimension.
\<close>

definition run_results :: "run_file \<Rightarrow> error + row list list" where
  "run_results rf =
     (if num_events rf < 0 then Inl ValueError
      else Inr (map (event_results_at rf) [0..<nat (num_events rf)]))"

text \<open>The three columns of one channel, over the events of the run.\<close>

definition col_tb :: "row list list \<Rightarrow> nat \<Rightarrow> real list" where
  "col_tb tables c = map (\<lambda>t. fst (t ! c)) tables"

definition col_amp :: "row list list \<Rightarrow> nat \<Rightarrow> real list" where
  "col_amp tables c = map (\<lambda>t. fst (snd (t ! c))) tables"

definition col_hit :: "row list list \<Rightarrow> nat \<Rightarrow> real list" where
  "col_hit tables c = map (\<lambda>t. snd (snd (t ! c))) tables"

text \<open>\<open>mask\<close>: the channel has hits in less than a tenth of the events.\<close>

definition pad_mask :: "row list list \<Rightarrow> nat \<Rightarrow> bool" where
  "pad_mask tables c \<longleftrightarrow> sum_list (col_hit tables c) < 0.1 * real (length tables)"

definition pad_tb_ma :: "row list list \<Rightarrow> nat \<Rightarrow> real option list" where
  "pad_tb_ma tables c = map (\<lambda>x. if pad_mask tables c then None else Some x) (col_tb tables c)"

definition pad_tb_avg :: "row list list \<Rightarrow> real option list" where
  "pad_tb_avg tables = map (\<lambda>c. ma_mean (pad_tb_ma tables c)) [0..<NUM_CHANNELS]"

definition pad_tb_err :: "row list list \<Rightarrow> fl option list" where
  "pad_tb_err tables =
     map (\<lambda>c. if pad_mask tables c then None else Some (sem (map (filled 0) (pad_tb_ma tables c))))
       [0..<NUM_CHANNELS]"

text \<open>\<open>pad_tb_err**-2\<close>.\<close>

definition inv_var :: "fl option list \<Rightarrow> real option list" where
  "inv_var errs = map (\<lambda>e. ma_power e (- 2)) errs"

definition pad_tb_weights :: "fl option list \<Rightarrow> real option list" where
  "pad_tb_weights errs = map (\<lambda>x. ma_divide x (ma_sum (inv_var errs))) (inv_var errs)"

definition run_tb_avg :: "real option list \<Rightarrow> fl option list \<Rightarrow> real option" where
  "run_tb_avg avgs errs = ma_average avgs (pad_tb_weights errs)"

definition run_tb_err :: "fl option list \<Rightarrow> real option" where
  "run_tb_err errs = ma_sqrt (ma_divide (Some 1) (ma_sum (inv_var errs)))"

definition tb_factors :: "real option list \<Rightarrow> fl option list \<Rightarrow> real list" where
  "tb_factors avgs errs = map (\<lambda>a. filled 0 (ma_subtract (run_tb_avg avgs errs) a)) avgs"

definition tb_factors_err :: "fl option list \<Rightarrow> real list" where
  "tb_factors_err errs =
     map (\<lambda>e. filled 0
            (ma_sqrt (ma_add (ma_power (map_option Fin (run_tb_err errs)) 2) (ma_power e 2))))
       errs"

text \<open>The mean amplitude over all events of the run, set to 0.0 where the mask holds.\<close>

definition pad_amp_avg :: "row list list \<Rightarrow> fl list" where
  "pad_amp_avg tables =
     map (\<lambda>c. if pad_mask tables c then Fin 0 else np_mean (col_amp tables c)) [0..<NUM_CHANNELS]"

text \<open>One row of the result: (correction factor, its error, average amplitude).\<close>

type_synonym stat = "fl \<times> fl \<times> fl"

definition column_stack :: "real list \<Rightarrow> real list \<Rightarrow> fl list \<Rightarrow> stat list" where
  "column_stack fs es as = map (\<lambda>(f, e, a). (Fin f, Fin e, a)) (zip fs (zip es as))"

text \<open>The statistics of a run, from \<open>run_results\<close> on.\<close>

definition run_stats :: "row list list \<Rightarrow> stat list" where
  "run_stats tables =
     (let avgs = pad_tb_avg tables; errs = pad_tb_err tables
      in column_stack (tb_factors avgs errs) (tb_factors_err errs) (pad_amp_avg tables))"

definition pulser_file :: "run_file \<Rightarrow> error + stat list" where
  "pulser_file rf = (case run_results rf of Inl e \<Rightarrow> Inl e | Inr tables \<Rightarrow> Inr (run_stats tables))"

text \<open>
  \<open>pulser_results\<close>: \<open>None\<close> (after printing a message) when the file of the run cannot
  be opened.
\<close>

definition pulser_results :: "workspace \<Rightarrow> int \<Rightarrow> error + stat list option" where
  "pulser_results ws run =
     (case ws run of
        None \<Rightarrow> Inr None
      | Some rf \<Rightarrow> (case pulser_file rf of Inl e \<Rightarrow> Inl e | Inr t \<Rightarrow> Inr (Some t)))"

section \<open>time\_correction\_calculator\<close>

text \<open>A loop whose body may raise: it stops at the first error.\<close>

fun for_each :: "('a \<Rightarrow> error + 'b) \<Rightarrow> 'a list \<Rightarrow> error + 'b list" where
  "for_each f [] = Inr []"
| "for_each f (x # xs) =
     (case f x of
        Inl e \<Rightarrow> Inl e
      | Inr y \<Rightarrow> (case for_each f xs of Inl e \<Rightarrow> Inl e | Inr ys \<Rightarrow> Inr (y # ys)))"

text \<open>
  \<open>results[:, :, idx] = run_results\<close>: assigning \<open>None\<close> to a slice of a float array
  stores \<open>nan\<close> in every entry of the slice.
\<close>

definition run_slice :: "workspace \<Rightarrow> int \<Rightarrow> error + stat list" where
  "run_slice ws run =
     (case pulser_results ws run of
        Inl e \<Rightarrow> Inl e
      | Inr None \<Rightarrow> Inr (replicate NUM_CHANNELS (NaN, NaN, NaN))
      | Inr (Some t) \<Rightarrow> Inr t)"

text \<open>\<open>results\<close>, as the list of its slices by run position.\<close>

definition results :: "workspace \<Rightarrow> int \<Rightarrow> int \<Rightarrow> error + stat list list" where
  "results ws run_min run_max =
     (if run_max - run_min + 1 < 0 then Inl ValueError
      else for_each (run_slice ws) [run_min..run_max])"

definition stat_tb :: "stat list list \<Rightarrow> nat \<Rightarrow> fl list" where
  "stat_tb res p = map (\<lambda>t. fst (t ! p)) res"

definition stat_err :: "stat list list \<Rightarrow> nat \<Rightarrow> fl list" where
  "stat_err res p = map (\<lambda>t. fst (snd (t ! p))) res"

definition stat_amp :: "stat list list \<Rightarrow> nat \<Rightarrow> fl list" where
  "stat_amp res p = map (\<lambda>t. snd (snd (t ! p))) res"

text \<open>
  The weights of the fit: \<open>1.0 / np.sqrt(err)\<close>, then 1.0 wherever \<open>err == 0.0\<close>.
\<close>

definition fit_weights :: "fl list \<Rightarrow> fl list" where
  "fit_weights errs =
     (let weights = map (\<lambda>e. fl_recip (fl_sqrt e)) errs
      in map2 (\<lambda>w e. if fl_eq e (Fin 0) then Fin 1 else w) weights errs)"

text \<open>
  The weighted linear fit is lmfit's; it is a parameter here, taking \<open>x\<close>, \<open>data\<close> and
  \<open>weights\<close> and returning (slope, intercept) or raising.
\<close>

type_synonym fitter = "fl list \<Rightarrow> fl list \<Rightarrow> fl list \<Rightarrow> error + fl \<times> fl"

text \<open>One pass of the loop over the pads: the row \<open>fit_results[pad]\<close>.\<close>

definition fit_pad :: "fitter \<Rightarrow> stat list list \<Rightarrow> nat \<Rightarrow> error + fl \<times> fl" where
  "fit_pad fit res p =
     (if fl_eq (np_sum (stat_amp res p)) (Fin 0) then Inr (Fin 0, Fin 0)
      else fit (stat_amp res p) (stat_tb res p) (fit_weights (stat_err res p)))"

text \<open>What is written: the raw table when asked for, and the table of fits.\<close>

record written =
  raw_file :: "stat list list option"
  fits_file :: "(fl \<times> fl) list"

definition time_correction_calculator ::
  "fitter \<Rightarrow> workspace \<Rightarrow> int \<Rightarrow> int \<Rightarrow> bool \<Rightarrow> error + written" where
  "time_correction_calculator fit ws run_min run_max write_raw =
     (case results ws run_min run_max of
        Inl e \<Rightarrow> Inl e
      | Inr res \<Rightarrow>
          (case for_each (fit_pad fit res) [0..<NUM_CHANNELS] of
             Inl e \<Rightarrow> Inl e
           | Inr fit_results \<Rightarrow>
               Inr \<lparr>raw_file = (if write_raw then Some res else None),
                    fits_file = fit_results\<rparr>))"

section \<open>Notions used by the properties\<close>


text \<open>The number of events of the run in which the channel has hit flag 1.\<close>

definition hit_count :: "row list list \<Rightarrow> nat \<Rightarrow> nat" where
  "hit_count tables c = length (filter (\<lambda>h. h = 1) (col_hit tables c))"

text \<open>
  A run of eleven events, 0 to 10, of which only event 0 has a point cloud: one point on
  pad 3.
\<close>

definition sparse_run :: run_file where
  "sparse_run =
     \<lparr>min_event = 0, max_event = 10,
      clouds = (\<lambda>ev. if ev = 0 then Some [\<lparr>amp = 2, pad = 3, tb = 5\<rparr>] else None)\<rparr>"

definition sparse_ws :: workspace where
  "sparse_ws = (\<lambda>r. if r = 373 then Some sparse_run else None)"

definition sparse_tables :: "row list list" where
  "sparse_tables =
     map (\<lambda>idx. if idx = 0 then (replicate NUM_CHANNELS (0, 0, 0))[3 := (5, 2, 1)]
                else replicate NUM_CHANNELS (0, 0, 0)) [0..<11]"

text \<open>Event number \<open>min_event + idx\<close> has a point cloud in the file.\<close>

definition present :: "run_file \<Rightarrow> nat \<Rightarrow> bool" where
  "present rf idx \<longleftrightarrow> clouds rf (min_event rf + int idx) \<noteq> None"

text \<open>A run of two events, 7 and 8, of which only event 7 has a point cloud.\<close>

definition half_run :: run_file where
  "half_run =
     \<lparr>min_event = 7, max_event = 8,
      clouds = (\<lambda>ev. if ev = 7 then Some [\<lparr>amp = 2, pad = 3, tb = 5\<rparr>] else None)\<rparr>"

definition half_tables :: "row list list" where
  "half_tables =
     [(replicate NUM_CHANNELS (0, 0, 0))[3 := (5, 2, 1)], replicate NUM_CHANNELS (0, 0, 0)]"

text \<open>The channel has an unmasked standard error that is finite and not zero.\<close>

definition has_weight :: "fl option \<Rightarrow> bool" where
  "has_weight e = (case e of Some (Fin r) \<Rightarrow> r \<noteq> 0 | _ \<Rightarrow> False)"

text \<open>
  A run of two events, 0 and 1; in both, pad 0 has its point at time bucket 5, pad 1 has
  it at time bucket 4 in event 0 and at 6 in event 1.
\<close>

definition steady_run :: run_file where
  "steady_run =
     \<lparr>min_event = 0, max_event = 1,
      clouds = (\<lambda>ev. if ev = 0 then Some [\<lparr>amp = 1, pad = 0, tb = 5\<rparr>, \<lparr>amp = 1, pad = 1, tb = 4\<rparr>]
                    else if ev = 1 then Some [\<lparr>amp = 1, pad = 0, tb = 5\<rparr>, \<lparr>amp = 1, pad = 1, tb = 6\<rparr>]
                    else None)\<rparr>"

definition steady_tables :: "row list list" where
  "steady_tables =
     [(replicate NUM_CHANNELS (0, 0, 0))[0 := (5, 1, 1), 1 := (4, 1, 1)],
      (replicate NUM_CHANNELS (0, 0, 0))[0 := (5, 1, 1), 1 := (6, 1, 1)]]"

text \<open>A run of two events in which only pad 0 has points, at time bucket 5 both times.\<close>

definition lone_run :: run_file where
  "lone_run =
     \<lparr>min_event = 0, max_event = 1,
      clouds = (\<lambda>ev. if ev = 0 \<or> ev = 1 then Some [\<lparr>amp = 1, pad = 0, tb = 5\<rparr>] else None)\<rparr>"

definition lone_tables :: "row list list" where
  "lone_tables =
     [(replicate NUM_CHANNELS (0, 0, 0))[0 := (5, 1, 1)],
      (replicate NUM_CHANNELS (0, 0, 0))[0 := (5, 1, 1)]]"

text \<open>
  A run with the single event 0 and no point cloud, in a workspace that has a file for
  run 373 only.
\<close>

definition quiet_run :: run_file where
  "quiet_run = \<lparr>min_event = 0, max_event = 0, clouds = (\<lambda>ev. None)\<rparr>"

definition quiet_tables :: "row list list" where
  "quiet_tables = [replicate NUM_CHANNELS (0, 0, 0)]"

definition quiet_ws :: workspace where
  "quiet_ws = (\<lambda>r. if r = 373 then Some quiet_run else None)"

text \<open>A fit that raises when its input holds \<open>nan\<close>, and one that raises always.\<close>

definition nan_raising_fit :: fitter where
  "nan_raising_fit x d w =
     (if NaN \<in> set x \<or> NaN \<in> set d \<or> NaN \<in> set w then Inl FitError else Inr (Fin 0, Fin 0))"

definition raising_fit :: fitter where
  "raising_fit x d w = Inl FitError"

text \<open>Two run positions of one pad: errors 4 and 0.\<close>

definition two_runs :: "stat list list" where
  "two_runs = [[(Fin 1, Fin 4, Fin 2)], [(Fin 3, Fin 0, Fin 5)]]"

section \<open>Properties of pad\_times\<close>

subsection \<open>The integer conversion\<close>

lemma py_int_range: "- (2 ^ 63) \<le> py_int x \<and> py_int x < 2 ^ 63"
  by (simp add: py_int_def Let_def)

lemma py_int_of_int: "- (2 ^ 63) \<le> k \<Longrightarrow> k < 2 ^ 63 \<Longrightarrow> py_int (of_int k) = k"
  by (simp add: py_int_def Let_def)

lemma py_int_idem [simp]: "py_int (of_int (py_int x)) = py_int x"
  using py_int_range [of x] by (simp add: py_int_of_int)

lemma ceiling_minus_one_real [simp]: "\<lceil>- 1 :: real\<rceil> = - 1"
  using ceiling_of_int [of "- 1", where ?'a = real] by simp





subsection \<open>Rows and tables\<close>



lemma row_of_less: "row_of n i = Some k \<Longrightarrow> k < n"
  by (auto simp: row_of_def Let_def split: if_splits)

lemma pad_step_length [simp]: "length (pad_step er p) = length er"
  by (simp add: pad_step_def Let_def split: option.splits)

lemma pad_loop_length [simp]: "length (pad_loop er pc) = length er"
  by (induction pc arbitrary: er) simp_all

lemma pad_times_length [simp]: "length (pad_times pc) = NUM_CHANNELS"
  by (simp add: pad_times_def)





lemma hit_flag_ok_update:
  assumes "hit_flag_ok er" and "h = 0 \<or> h = 1"
  shows "hit_flag_ok (er[k := (t, a, h)])"
proof -
  have "set (er[k := (t, a, h)]) \<subseteq> insert (t, a, h) (set er)"
    by (rule set_update_subset_insert)
  with assms show ?thesis
    unfolding hit_flag_ok_def by fastforce
qed

lemma pad_step_hit_flag:
  assumes "hit_flag_ok er"
  shows "hit_flag_ok (pad_step er p)"
proof (cases "row_of (length er) (py_int (pad p))")
  case None
  with assms show ?thesis by (simp add: pad_step_def Let_def)
next
  case (Some k)
  then have "k < length er" by (rule row_of_less)
  then have "er ! k \<in> set er" by simp
  then have old: "snd (snd (er ! k)) = 0 \<or> snd (snd (er ! k)) = 1"
    using assms unfolding hit_flag_ok_def by blast
  show ?thesis
    using assms Some old by (simp add: pad_step_def Let_def hit_flag_ok_update)
qed

lemma pad_loop_hit_flag: "hit_flag_ok er \<Longrightarrow> hit_flag_ok (pad_loop er pc)"
  by (induction pc arbitrary: er) (simp_all add: pad_step_hit_flag)

lemma pad_times_hit_flag: "hit_flag_ok (pad_times pc)"
  unfolding pad_times_def by (rule pad_loop_hit_flag) (simp add: hit_flag_ok_def)

subsection \<open>Where pad\_times does record the earliest point\<close>

text \<open>
  The rows of channels without points keep their zeros, and a tie at a stored time bucket
  other than 0 changes nothing. When no truncated time bucket of the event is 0, the
  recorded time bucket of a channel is at most that of each of its points.
\<close>

lemma pad_step_other_row:
  assumes "row_of (length er) (py_int (pad p)) \<noteq> Some k"
  shows "pad_step er p ! k = er ! k"
proof (cases "row_of (length er) (py_int (pad p))")
  case None
  then show ?thesis by (simp add: pad_step_def Let_def)
next
  case (Some j)
  then have "j \<noteq> k" using assms by auto
  then show ?thesis
    using Some by (simp add: pad_step_def Let_def)
qed

lemma pad_loop_other_row:
  "(\<forall>p \<in> set pc. row_of (length er) (py_int (pad p)) \<noteq> Some k) \<Longrightarrow> pad_loop er pc ! k = er ! k"
  by (induction pc arbitrary: er) (simp_all add: pad_step_other_row)

lemma pad_times_no_points:
  assumes "k < NUM_CHANNELS"
    and "\<forall>p \<in> set pc. row_of NUM_CHANNELS (py_int (pad p)) \<noteq> Some k"
  shows "pad_times pc ! k = (0, 0, 0)"
proof -
  have "pad_times pc ! k = replicate NUM_CHANNELS (0, 0, 0) ! k"
    unfolding pad_times_def by (rule pad_loop_other_row) (simp add: assms(2))
  then show ?thesis using assms(1) by simp
qed

lemma pad_step_tie_keeps_row:
  assumes "row_of (length er) (py_int (pad p)) = Some k" and "fst (er ! k) \<noteq> 0"
    and "of_int (py_int (tb p)) = fst (er ! k)"
  shows "pad_step er p = er"
  using assms by (simp add: pad_step_def Let_def)

lemma pad_step_decreases:
  assumes "py_int (tb p) \<noteq> 0" and "k < length er" and "fst (er ! k) \<noteq> 0"
  shows "fst (pad_step er p ! k) \<le> fst (er ! k) \<and> fst (pad_step er p ! k) \<noteq> 0"
proof (cases "row_of (length er) (py_int (pad p)) = Some k")
  case True
  then show ?thesis
    using assms by (simp add: pad_step_def Let_def)
next
  case False
  then have "pad_step er p ! k = er ! k" by (rule pad_step_other_row)
  then show ?thesis using assms(3) by simp
qed

lemma pad_loop_decreases:
  "(\<forall>p \<in> set pc. py_int (tb p) \<noteq> 0) \<Longrightarrow> k < length er \<Longrightarrow> fst (er ! k) \<noteq> 0 \<Longrightarrow>
   fst (pad_loop er pc ! k) \<le> fst (er ! k) \<and> fst (pad_loop er pc ! k) \<noteq> 0"
proof (induction pc arbitrary: er)
  case Nil
  then show ?case by simp
next
  case (Cons p ps)
  have one: "fst (pad_step er p ! k) \<le> fst (er ! k) \<and> fst (pad_step er p ! k) \<noteq> 0"
    using pad_step_decreases [of p k er] Cons.prems by simp
  have "fst (pad_loop (pad_step er p) ps ! k) \<le> fst (pad_step er p ! k)
      \<and> fst (pad_loop (pad_step er p) ps ! k) \<noteq> 0"
    using Cons.IH [of "pad_step er p"] Cons.prems(1,2) one by simp
  with one show ?case by simp
qed

lemma pad_step_own_row:
  assumes "py_int (tb p) \<noteq> 0" and "row_of (length er) (py_int (pad p)) = Some k"
  shows "fst (pad_step er p ! k) \<le> of_int (py_int (tb p)) \<and> fst (pad_step er p ! k) \<noteq> 0"
proof -
  have "k < length er" using assms(2) by (rule row_of_less)
  then show ?thesis
    using assms by (simp add: pad_step_def Let_def)
qed

lemma pad_loop_at_most_each_point:
  "(\<forall>p \<in> set pc. py_int (tb p) \<noteq> 0) \<Longrightarrow> p \<in> set pc \<Longrightarrow>
   row_of (length er) (py_int (pad p)) = Some k \<Longrightarrow>
   fst (pad_loop er pc ! k) \<le> of_int (py_int (tb p))"
proof (induction pc arbitrary: er)
  case Nil
  then show ?case by simp
next
  case (Cons q qs)
  have k: "k < length er" using Cons.prems(3) by (rule row_of_less)
  show ?case
  proof (cases "p = q")
    case True
    have own: "fst (pad_step er p ! k) \<le> of_int (py_int (tb p)) \<and> fst (pad_step er p ! k) \<noteq> 0"
      using pad_step_own_row [of p er k] Cons.prems(1,3) True by simp
    have "fst (pad_loop (pad_step er p) qs ! k) \<le> fst (pad_step er p ! k)"
      using pad_loop_decreases [of qs k "pad_step er p"] Cons.prems(1) k own by simp
    with own True show ?thesis by simp
  next
    case False
    then have "p \<in> set qs" using Cons.prems(2) by simp
    then show ?thesis
      using Cons.IH [of "pad_step er q"] Cons.prems(1,3) by simp
  qed
qed

lemma pad_times_at_most_each_point:
  assumes "\<forall>p \<in> set pc. py_int (tb p) \<noteq> 0" and "p \<in> set pc"
    and "row_of NUM_CHANNELS (py_int (pad p)) = Some k"
  shows "fst (pad_times pc ! k) \<le> of_int (py_int (tb p))"
  using pad_loop_at_most_each_point [of pc p "replicate NUM_CHANNELS (0, 0, 0)" k] assms
  by (simp add: pad_times_def)

subsection \<open>What a row holds\<close>








subsection \<open>The first-point test\<close>

text \<open>
  C1. The claim: the time bucket recorded for a channel is never larger than the minimum
  time bucket among the channel's points. The code tests \<open>event_results[pad_id, 0] == 0\<close>
  to recognise the first point of a channel, so a stored time bucket 0 is taken for "no
  point yet": with the points (pad 0, tb 0, amplitude 1) and (pad 0, tb 5, amplitude 2)
  the row recorded for channel 0 is (5, 2, 1), although the earliest time bucket is 0.
\<close>

theorem C1_stored_zero_is_replaced_by_later_point:
  "pad_times [\<lparr>amp = 1, pad = 0, tb = 0\<rparr>, \<lparr>amp = 2, pad = 0, tb = 5\<rparr>]
     = (replicate NUM_CHANNELS (0, 0, 0))[0 := (5, 2, 1)]
   \<and> Min (tb ` set [\<lparr>amp = 1, pad = 0, tb = 0\<rparr>, \<lparr>amp = 2, pad = 0, tb = 5\<rparr>]) = 0"
  by (simp add: pad_times_def pad_step_def row_of_def py_int_def NUM_CHANNELS_def Let_def)

text \<open>
  C3. The claim: a later point whose time bucket equals the stored one never overwrites
  the stored pair. With the same test as in C1, two points of channel 0 at time bucket 0
  with amplitudes 1 and 2 leave the amplitude 2 of the later point in the table.
\<close>

theorem C3_tie_at_zero_keeps_later_amplitude:
  "pad_times [\<lparr>amp = 1, pad = 0, tb = 0\<rparr>, \<lparr>amp = 2, pad = 0, tb = 0\<rparr>]
     = (replicate NUM_CHANNELS (0, 0, 0))[0 := (0, 2, 1)]"
  by (simp add: pad_times_def pad_step_def row_of_def py_int_def NUM_CHANNELS_def Let_def)




section \<open>Properties of pulser\_results\<close>

lemma for_each_length: "for_each f xs = Inr ys \<Longrightarrow> length ys = length xs"
  by (induction xs arbitrary: ys) (auto split: sum.splits)

lemma for_each_nth:
  "for_each f xs = Inr ys \<Longrightarrow> i < length xs \<Longrightarrow> f (xs ! i) = Inr (ys ! i)"
proof (induction xs arbitrary: ys i)
  case Nil
  then show ?case by simp
next
  case (Cons x xs)
  then show ?case
    by (cases i) (auto split: sum.splits)
qed

lemma for_each_map: "(\<And>x. x \<in> set xs \<Longrightarrow> f x = Inr (g x)) \<Longrightarrow> for_each f xs = Inr (map g xs)"
  by (induction xs) simp_all

lemma for_each_first_error: "f x = Inl e \<Longrightarrow> for_each f (x # xs) = Inl e"
  by simp

lemma event_results_at_length [simp]: "length (event_results_at rf idx) = NUM_CHANNELS"
  by (simp add: event_results_at_def split: option.splits)

lemma event_results_at_hit_flag: "hit_flag_ok (event_results_at rf idx)"
proof (cases "clouds rf (min_event rf + int idx)")
  case None
  then show ?thesis
    by (simp add: event_results_at_def hit_flag_ok_def)
next
  case (Some pc)
  then show ?thesis
    by (simp add: event_results_at_def pad_times_hit_flag)
qed

lemma run_results_length:
  "run_results rf = Inr tables \<Longrightarrow> 0 \<le> num_events rf \<and> length tables = nat (num_events rf)"
  by (auto simp: run_results_def split: if_splits)

lemma run_results_nth:
  assumes "run_results rf = Inr tables" and "idx < length tables"
  shows "tables ! idx = event_results_at rf idx"
proof -
  have "tables = map (event_results_at rf) [0..<nat (num_events rf)]"
    using assms(1) by (auto simp: run_results_def split: if_splits)
  then show ?thesis
    using assms(2) by simp
qed

lemma sum_list_flags:
  "(\<And>h. h \<in> set hs \<Longrightarrow> h = 0 \<or> h = (1::real)) \<Longrightarrow> sum_list hs = real (length (filter (\<lambda>h. h = 1) hs))"
  by (induction hs) auto

lemma col_hit_flags:
  assumes "run_results rf = Inr tables" and "c < NUM_CHANNELS" and "h \<in> set (col_hit tables c)"
  shows "h = 0 \<or> h = 1"
proof -
  obtain idx where idx: "idx < length tables" and h: "h = snd (snd (tables ! idx ! c))"
    using assms(3) by (auto simp: col_hit_def in_set_conv_nth)
  have at: "tables ! idx = event_results_at rf idx"
    using assms(1) idx by (rule run_results_nth)
  then have "length (tables ! idx) = NUM_CHANNELS" and ok: "hit_flag_ok (tables ! idx)"
    by (simp_all add: event_results_at_hit_flag)
  then have "tables ! idx ! c \<in> set (tables ! idx)"
    using assms(2) by simp
  with ok h show ?thesis
    unfolding hit_flag_ok_def by blast
qed

lemma sum_col_hit:
  assumes "run_results rf = Inr tables" and "c < NUM_CHANNELS"
  shows "sum_list (col_hit tables c) = real (hit_count tables c)"
  unfolding hit_count_def
  by (rule sum_list_flags) (rule col_hit_flags [OF assms])

lemma nth_upt_map: "c < n \<Longrightarrow> map f [0..<n] ! c = f c"
  by simp

lemma pad_tb_avg_nth: "c < NUM_CHANNELS \<Longrightarrow> pad_tb_avg tables ! c = ma_mean (pad_tb_ma tables c)"
  by (simp add: pad_tb_avg_def)

lemma pad_tb_err_nth:
  "c < NUM_CHANNELS \<Longrightarrow> pad_tb_err tables ! c =
     (if pad_mask tables c then None else Some (sem (map (filled 0) (pad_tb_ma tables c))))"
  by (simp add: pad_tb_err_def)

lemma pad_amp_avg_nth:
  "c < NUM_CHANNELS \<Longrightarrow> pad_amp_avg tables ! c =
     (if pad_mask tables c then Fin 0 else np_mean (col_amp tables c))"
  by (simp add: pad_amp_avg_def)

lemma stat_lengths [simp]:
  "length (pad_tb_avg tables) = NUM_CHANNELS"
  "length (pad_tb_err tables) = NUM_CHANNELS"
  "length (pad_amp_avg tables) = NUM_CHANNELS"
  "length (tb_factors avgs errs) = length avgs"
  "length (tb_factors_err errs) = length errs"
  by (simp_all add: pad_tb_avg_def pad_tb_err_def pad_amp_avg_def tb_factors_def tb_factors_err_def)

lemma run_stats_length [simp]: "length (run_stats tables) = NUM_CHANNELS"
  by (simp add: run_stats_def column_stack_def Let_def)

lemma run_stats_nth:
  "c < NUM_CHANNELS \<Longrightarrow> run_stats tables ! c =
     (Fin (tb_factors (pad_tb_avg tables) (pad_tb_err tables) ! c),
      Fin (tb_factors_err (pad_tb_err tables) ! c),
      pad_amp_avg tables ! c)"
  by (simp add: run_stats_def column_stack_def Let_def)

lemma ma_mean_masked_row: "ma_mean (map (\<lambda>x. None) xs) = None"
  by (simp add: ma_mean_def)

lemma masked_channel_stats:
  assumes "c < NUM_CHANNELS" and "pad_mask tables c"
  shows "run_stats tables ! c = (Fin 0, Fin 0, Fin 0)"
proof -
  have avg: "pad_tb_avg tables ! c = None"
    using assms by (simp add: pad_tb_avg_nth pad_tb_ma_def ma_mean_masked_row)
  have err: "pad_tb_err tables ! c = None"
    using assms by (simp add: pad_tb_err_nth)
  have "tb_factors (pad_tb_avg tables) (pad_tb_err tables) ! c = 0"
    using assms(1) avg by (simp add: tb_factors_def ma_subtract_def filled_def split: option.splits)
  moreover have "tb_factors_err (pad_tb_err tables) ! c = 0"
    using assms(1) err
    by (simp add: tb_factors_err_def ma_power_def ma_add_def ma_sqrt_def filled_def split: option.splits)
  moreover have "pad_amp_avg tables ! c = Fin 0"
    using assms by (simp add: pad_amp_avg_nth)
  ultimately show ?thesis
    using assms(1) by (simp add: run_stats_nth)
qed

text \<open>
  C5. A channel whose number of events with hit flag 1 is below 10% of the number of
  events of the run (\<open>max_event - min_event + 1\<close>) has the row (0.0, 0.0, 0.0) in the
  result of the run.
\<close>

theorem C5_low_hit_rate_channel_is_zeroed:
  assumes "ws run = Some rf" and "run_results rf = Inr tables" and "c < NUM_CHANNELS"
    and "real (hit_count tables c) < 0.1 * real_of_int (num_events rf)"
  shows "\<exists>out. pulser_results ws run = Inr (Some out) \<and> out ! c = (Fin 0, Fin 0, Fin 0)"
proof -
  have len: "real (length tables) = real_of_int (num_events rf)"
    using run_results_length [OF assms(2)] by simp
  have "pad_mask tables c"
    using assms(4) len sum_col_hit [OF assms(2,3)] by (simp add: pad_mask_def)
  then have "run_stats tables ! c = (Fin 0, Fin 0, Fin 0)"
    using assms(3) by (simp add: masked_channel_stats)
  then show ?thesis
    using assms(1,2) by (simp add: pulser_results_def pulser_file_def)
qed

lemma sparse_pad_times:
  "pad_times [\<lparr>amp = 2, pad = 3, tb = 5\<rparr>] = (replicate NUM_CHANNELS (0, 0, 0))[3 := (5, 2, 1)]"
  by (simp add: pad_times_def pad_step_def row_of_def py_int_def Let_def NUM_CHANNELS_def)

lemma sparse_run_results: "run_results sparse_run = Inr sparse_tables"
proof -
  have "map (event_results_at sparse_run) [0..<11] = sparse_tables"
    unfolding sparse_tables_def
    by (rule map_cong) (simp_all add: event_results_at_def sparse_run_def sparse_pad_times)
  then show ?thesis
    by (simp add: run_results_def num_events_def sparse_run_def)
qed

lemma sparse_hit_count: "hit_count sparse_tables 3 = 1"
proof -
  have "3 < NUM_CHANNELS" by (simp add: NUM_CHANNELS_def)
  then show ?thesis
    by (simp add: hit_count_def col_hit_def sparse_tables_def upt_conv_Cons)
qed

theorem C5_low_hit_rate_witness:
  "real (hit_count sparse_tables 3) < 0.1 * real_of_int (num_events sparse_run)
   \<and> (\<exists>out. pulser_results sparse_ws 373 = Inr (Some out) \<and> out ! 3 = (Fin 0, Fin 0, Fin 0))"
proof -
  have ch: "3 < NUM_CHANNELS" by (simp add: NUM_CHANNELS_def)
  have rate: "real (hit_count sparse_tables 3) < 0.1 * real_of_int (num_events sparse_run)"
    by (simp add: sparse_hit_count num_events_def sparse_run_def)
  have fl: "sparse_ws 373 = Some sparse_run"
    by (simp add: sparse_ws_def)
  show ?thesis
    using C5_low_hit_rate_channel_is_zeroed [of sparse_ws 373 sparse_run sparse_tables 3]
      fl sparse_run_results ch rate
    by blast
qed

lemma sum_list_filter_zero:
  "(\<And>x. x \<in> set xs \<Longrightarrow> \<not> P x \<Longrightarrow> g x = (0::real))
   \<Longrightarrow> sum_list (map g xs) = sum_list (map g (filter P xs))"
  by (induction xs) auto

lemma sum_over_present:
  assumes "\<And>idx. idx < length tables \<Longrightarrow> \<not> P idx \<Longrightarrow> g (tables ! idx) = (0::real)"
  shows "sum_list (map g tables) = sum_list (map (\<lambda>idx. g (tables ! idx)) (filter P [0..<length tables]))"
proof -
  have "map g tables = map (\<lambda>idx. g (tables ! idx)) [0..<length tables]"
    by (rule nth_equalityI) simp_all
  moreover have "sum_list (map (\<lambda>idx. g (tables ! idx)) [0..<length tables])
      = sum_list (map (\<lambda>idx. g (tables ! idx)) (filter P [0..<length tables]))"
    by (rule sum_list_filter_zero) (simp add: assms)
  ultimately show ?thesis by simp
qed

lemma absent_event_row:
  assumes "run_results rf = Inr tables" and "c < NUM_CHANNELS" and "idx < length tables"
    and "\<not> present rf idx"
  shows "tables ! idx ! c = (0, 0, 0)"
proof -
  have "tables ! idx = event_results_at rf idx"
    using assms(1,3) by (rule run_results_nth)
  then have "tables ! idx = replicate NUM_CHANNELS (0, 0, 0)"
    using assms(4) by (simp add: event_results_at_def present_def)
  then show ?thesis
    using assms(2) by simp
qed

text \<open>
  C9. Every event number from \<open>min_event\<close> to \<open>max_event\<close> has a slice in
  \<open>run_results\<close>, so the number of events is \<open>max_event - min_event + 1\<close> whether or
  not the clouds exist. The slice of an absent cloud is all zero: the hits counted for the
  mask and the amplitudes summed for the average are those of the events with a cloud,
  while the threshold and the divisor of the mean use the full number of events.
\<close>

theorem C9_absent_events_dilute:
  assumes "run_results rf = Inr tables" and "c < NUM_CHANNELS"
  shows "length tables = nat (max_event rf - min_event rf + 1)
    \<and> (\<forall>idx < length tables. \<not> present rf idx \<longrightarrow> tables ! idx ! c = (0, 0, 0))
    \<and> (pad_mask tables c \<longleftrightarrow>
         sum_list (map (\<lambda>idx. snd (snd (tables ! idx ! c))) (filter (present rf) [0..<length tables]))
           < 0.1 * real_of_int (max_event rf - min_event rf + 1))
    \<and> (\<not> pad_mask tables c \<and> tables \<noteq> [] \<longrightarrow>
         snd (snd (run_stats tables ! c)) =
           Fin (sum_list (map (\<lambda>idx. fst (snd (tables ! idx ! c))) (filter (present rf) [0..<length tables]))
                / real_of_int (max_event rf - min_event rf + 1)))"
proof -
  have len: "length tables = nat (max_event rf - min_event rf + 1)"
    and nonneg: "0 \<le> max_event rf - min_event rf + 1"
    using run_results_length [OF assms(1)] by (simp_all add: num_events_def)
  then have rlen: "real (length tables) = real_of_int (max_event rf - min_event rf + 1)"
    by simp
  have zero: "\<forall>idx < length tables. \<not> present rf idx \<longrightarrow> tables ! idx ! c = (0, 0, 0)"
    using absent_event_row [OF assms] by blast
  have hits: "sum_list (col_hit tables c)
      = sum_list (map (\<lambda>idx. snd (snd (tables ! idx ! c))) (filter (present rf) [0..<length tables]))"
    unfolding col_hit_def by (rule sum_over_present) (simp add: zero)
  have amps: "sum_list (col_amp tables c)
      = sum_list (map (\<lambda>idx. fst (snd (tables ! idx ! c))) (filter (present rf) [0..<length tables]))"
    unfolding col_amp_def by (rule sum_over_present) (simp add: zero)
  have m: "pad_mask tables c \<longleftrightarrow>
         sum_list (map (\<lambda>idx. snd (snd (tables ! idx ! c))) (filter (present rf) [0..<length tables]))
           < 0.1 * real_of_int (max_event rf - min_event rf + 1)"
    unfolding pad_mask_def hits rlen by (rule refl)
  have a: "\<not> pad_mask tables c \<and> tables \<noteq> [] \<longrightarrow>
         snd (snd (run_stats tables ! c)) =
           Fin (sum_list (map (\<lambda>idx. fst (snd (tables ! idx ! c))) (filter (present rf) [0..<length tables]))
                / real_of_int (max_event rf - min_event rf + 1))"
  proof
    assume h: "\<not> pad_mask tables c \<and> tables \<noteq> []"
    then have "col_amp tables c \<noteq> []" by (simp add: col_amp_def)
    then have "np_mean (col_amp tables c) = Fin (sum_list (col_amp tables c) / real (length tables))"
      by (simp add: np_mean_def col_amp_def)
    then show "snd (snd (run_stats tables ! c)) =
           Fin (sum_list (map (\<lambda>idx. fst (snd (tables ! idx ! c))) (filter (present rf) [0..<length tables]))
                / real_of_int (max_event rf - min_event rf + 1))"
      using h assms(2) by (simp add: run_stats_nth pad_amp_avg_nth amps rlen)
  qed
  from len zero m a show ?thesis by blast
qed

lemma half_run_results: "run_results half_run = Inr half_tables"
  by (simp add: run_results_def num_events_def half_run_def half_tables_def event_results_at_def
      sparse_pad_times upt_conv_Cons)

theorem C9_absent_events_witness:
  "run_results half_run = Inr half_tables \<and> \<not> present half_run 1 \<and> half_tables ! 1 ! 3 = (0, 0, 0)
   \<and> \<not> pad_mask half_tables 3
   \<and> snd (snd (run_stats half_tables ! 3)) = Fin 1"
proof -
  have ch: "3 < NUM_CHANNELS" by (simp add: NUM_CHANNELS_def)
  have ab: "\<not> present half_run 1" by (simp add: present_def half_run_def)
  have m: "\<not> pad_mask half_tables 3"
    using ch by (simp add: pad_mask_def col_hit_def half_tables_def)
  have ne: "half_tables \<noteq> []" by (simp add: half_tables_def)
  have s: "sum_list (map (\<lambda>idx. fst (snd (half_tables ! idx ! 3))) (filter (present half_run) [0..<length half_tables]))
                / real_of_int (max_event half_run - min_event half_run + 1) = 1"
    using ch by (simp add: half_tables_def half_run_def present_def upt_conv_Cons)
  have l: "(1::nat) < length half_tables" by (simp add: half_tables_def)
  show ?thesis
    using C9_absent_events_dilute [OF half_run_results ch] ab m ne s l half_run_results
    by (metis (no_types, lifting))
qed

lemma ma_power_inv_Fin:
  "ma_power (Some (Fin r)) (- 2) = (if r = 0 then None else Some (1 / r\<^sup>2))"
  by (simp add: ma_power_def fl_power_def power_int_minus divide_inverse)

lemma ma_power_inv_nonneg: "ma_power e (- 2) = Some v \<Longrightarrow> 0 \<le> v"
  by (auto simp: ma_power_def fl_power_def power_int_minus split: option.splits fl.splits if_splits)

lemma ma_power_inv_masked: "e = None \<or> e = Some NaN \<Longrightarrow> ma_power e (- 2) = None"
  by (auto simp: ma_power_def fl_power_def)

lemma has_weight_inv: "has_weight e \<Longrightarrow> \<exists>v. ma_power e (- 2) = Some v \<and> 0 < v"
  by (auto simp: has_weight_def ma_power_inv_Fin split: option.splits fl.splits)

lemma filled_nonneg_sum:
  "(\<And>v. Some v \<in> set xs \<Longrightarrow> 0 \<le> v) \<Longrightarrow> 0 \<le> sum_list (map (filled 0) xs)"
proof (induction xs)
  case Nil
  then show ?case by simp
next
  case (Cons x xs)
  then have "0 \<le> sum_list (map (filled 0) xs)" by simp
  moreover have "0 \<le> filled 0 x"
    using Cons.prems [of "the x"] by (cases x) (simp_all add: filled_def)
  ultimately show ?case by simp
qed

lemma filled_pos_sum:
  assumes "\<And>v. Some v \<in> set xs \<Longrightarrow> 0 \<le> v" and "Some w \<in> set xs" and "0 < w"
  shows "0 < sum_list (map (filled 0) xs)"
  using assms
proof (induction xs)
  case Nil
  then show ?case by simp
next
  case (Cons x xs)
  have rest: "0 \<le> sum_list (map (filled 0) xs)"
    by (rule filled_nonneg_sum) (simp add: Cons.prems(1))
  have head: "0 \<le> filled 0 x"
    using Cons.prems(1) [of "the x"] by (cases x) (simp_all add: filled_def)
  show ?case
  proof (cases "x = Some w")
    case True
    then have "0 < filled 0 x"
      using Cons.prems(3) by (simp add: filled_def)
    with rest show ?thesis by simp
  next
    case False
    then have "Some w \<in> set xs" using Cons.prems(2) by simp
    then have "0 < sum_list (map (filled 0) xs)"
      using Cons.IH Cons.prems(1,3) by simp
    with head show ?thesis by simp
  qed
qed

lemma inv_var_sum:
  assumes "c < length errs" and "has_weight (errs ! c)"
  shows "\<exists>s. ma_sum (inv_var errs) = Some s \<and> 0 < s \<and> s = sum_list (map (filled 0) (inv_var errs))"
proof -
  obtain w where w: "ma_power (errs ! c) (- 2) = Some w" "0 < w"
    using has_weight_inv [OF assms(2)] by blast
  have "inv_var errs ! c = Some w"
    using assms(1) w(1) by (simp add: inv_var_def)
  moreover have "c < length (inv_var errs)"
    using assms(1) by (simp add: inv_var_def)
  ultimately have mem: "Some w \<in> set (inv_var errs)"
    using nth_mem by fastforce
  have nonneg: "\<And>v. Some v \<in> set (inv_var errs) \<Longrightarrow> 0 \<le> v"
  proof -
    fix v assume "Some v \<in> set (inv_var errs)"
    then obtain e where "ma_power e (- 2) = Some v"
      unfolding inv_var_def by auto
    then show "0 \<le> v" by (rule ma_power_inv_nonneg)
  qed
  have "0 < sum_list (map (filled 0) (inv_var errs))"
    using nonneg mem w(2) by (rule filled_pos_sum)
  moreover have "\<not> list_all (\<lambda>x. x = None) (inv_var errs)"
    using mem by (auto simp: list_all_iff)
  ultimately show ?thesis
    by (simp add: ma_sum_def)
qed

lemma filled_ma_divide: "s \<noteq> 0 \<Longrightarrow> filled 0 (ma_divide x (Some s)) = filled 0 x / s"
  by (cases x) (simp_all add: filled_def ma_divide_def)

lemma sum_list_divide: "sum_list (map (\<lambda>x. f x / (s::real)) xs) = sum_list (map f xs) / s"
  by (induction xs) (simp_all add: add_divide_distrib)


lemma pad_tb_weights_nth:
  assumes "ma_sum (inv_var errs) = Some s" and "c < length errs"
  shows "pad_tb_weights errs ! c = ma_divide (inv_var errs ! c) (Some s)"
  using assms by (simp add: pad_tb_weights_def inv_var_def)

lemma pad_tb_weights_total:
  assumes "ma_sum (inv_var errs) = Some s" and "0 < s"
    and "s = sum_list (map (filled 0) (inv_var errs))"
  shows "sum_list (map (filled 0) (pad_tb_weights errs)) = 1"
proof -
  have "map (filled 0) (pad_tb_weights errs) = map (\<lambda>x. filled 0 x / s) (inv_var errs)"
    using assms(2) by (simp add: pad_tb_weights_def assms(1) filled_ma_divide)
  then have "sum_list (map (filled 0) (pad_tb_weights errs))
      = sum_list (map (filled 0) (inv_var errs)) / s"
    by (simp only: sum_list_divide)
  also have "\<dots> = s / s"
    by (simp only: assms(3) [symmetric])
  also have "\<dots> = 1"
    using assms(2) by simp
  finally show ?thesis .
qed

text \<open>
  C6, amended: when at least one channel has an unmasked standard error that is finite
  and not zero, the weights sum to 1. The weight of a channel is its \<open>pad_tb_err**-2\<close>
  over the sum of these over the channels where it is unmasked; it is masked for a channel
  that is masked, and for an unmasked channel whose standard error is zero or \<open>nan\<close>.
\<close>

theorem C6_weights_sum_to_one:
  assumes "\<exists>c < length errs. has_weight (errs ! c)"
  shows "ma_sum (pad_tb_weights errs) = Some 1
    \<and> (\<forall>c < length errs.
          pad_tb_weights errs ! c =
            ma_divide (inv_var errs ! c) (Some (sum_list (map (filled 0) (inv_var errs)))))
    \<and> (\<forall>c < length errs. \<forall>r. errs ! c = Some (Fin r) \<longrightarrow>
          inv_var errs ! c = (if r = 0 then None else Some (1 / r\<^sup>2)))
    \<and> (\<forall>c < length errs. errs ! c = None \<or> errs ! c = Some NaN \<longrightarrow>
          pad_tb_weights errs ! c = None)"
proof -
  obtain c where c: "c < length errs" "has_weight (errs ! c)"
    using assms by blast
  obtain s where s: "ma_sum (inv_var errs) = Some s" "0 < s"
    "s = sum_list (map (filled 0) (inv_var errs))"
    using inv_var_sum [OF c] by blast
  obtain w where w: "ma_power (errs ! c) (- 2) = Some w"
    using has_weight_inv [OF c(2)] by blast
  have "pad_tb_weights errs ! c = Some (w / s)"
    using s(2) c(1) w by (simp add: pad_tb_weights_nth [OF s(1)] inv_var_def ma_divide_def)
  moreover have "c < length (pad_tb_weights errs)"
    using c(1) by (simp add: pad_tb_weights_def inv_var_def)
  ultimately have "\<not> list_all (\<lambda>x. x = None) (pad_tb_weights errs)"
    by (auto simp: list_all_length)
  then have total: "ma_sum (pad_tb_weights errs) = Some 1"
    by (simp add: ma_sum_def pad_tb_weights_total [OF s])
  have each: "\<forall>c < length errs.
          pad_tb_weights errs ! c =
            ma_divide (inv_var errs ! c) (Some (sum_list (map (filled 0) (inv_var errs))))"
    using pad_tb_weights_nth [OF s(1)] by (simp only: s(3) [symmetric]) simp
  have fin: "\<forall>c < length errs. \<forall>r. errs ! c = Some (Fin r) \<longrightarrow>
          inv_var errs ! c = (if r = 0 then None else Some (1 / r\<^sup>2))"
    by (simp add: inv_var_def ma_power_inv_Fin)
  have none: "\<forall>c < length errs. errs ! c = None \<or> errs ! c = Some NaN \<longrightarrow>
          pad_tb_weights errs ! c = None"
  proof (intro allI impI)
    fix d assume d: "d < length errs" and m: "errs ! d = None \<or> errs ! d = Some NaN"
    have "inv_var errs ! d = None"
      using d ma_power_inv_masked [OF m] by (simp add: inv_var_def)
    then show "pad_tb_weights errs ! d = None"
      using d by (simp add: pad_tb_weights_nth [OF s(1)] ma_divide_def)
  qed
  from total each fin none show ?thesis by blast
qed

theorem C6_weights_sum_witness:
  "has_weight ([Some (Fin 1), Some (Fin 0), None, Some (Fin 2)] ! 0)
   \<and> ma_sum (pad_tb_weights [Some (Fin 1), Some (Fin 0), None, Some (Fin 2)]) = Some 1
   \<and> pad_tb_weights [Some (Fin 1), Some (Fin 0), None, Some (Fin 2)] = [Some (4 / 5), None, None, Some (1 / 5)]"
proof -
  let ?errs = "[Some (Fin 1), Some (Fin 0), None, Some (Fin 2)]"
  have h: "has_weight (?errs ! 0)" by (simp add: has_weight_def)
  then have "\<exists>c < length ?errs. has_weight (?errs ! c)" by auto
  then have "ma_sum (pad_tb_weights ?errs) = Some 1"
    using C6_weights_sum_to_one [of ?errs] by blast
  moreover have "pad_tb_weights ?errs = [Some (4 / 5), None, None, Some (1 / 5)]"
    by (simp add: pad_tb_weights_def inv_var_def ma_power_def fl_power_def ma_sum_def
        filled_def ma_divide_def power_int_minus)
  ultimately show ?thesis using h by blast
qed


lemma lone_run_results: "run_results lone_run = Inr lone_tables"
  by (simp add: run_results_def num_events_def lone_run_def lone_tables_def event_results_at_def
      pad_times_def pad_step_def row_of_def py_int_def Let_def NUM_CHANNELS_def upt_conv_Cons)

lemma lone_err_0: "pad_tb_err lone_tables ! 0 = Some (Fin 0)"
proof -
  have ch: "0 < NUM_CHANNELS" by (simp add: NUM_CHANNELS_def)
  have m: "\<not> pad_mask lone_tables 0"
    using ch by (simp add: pad_mask_def col_hit_def lone_tables_def)
  have "sem (map (filled 0) (pad_tb_ma lone_tables 0)) = Fin 0"
    using ch m by (simp add: pad_tb_ma_def col_tb_def lone_tables_def sem_def filled_def)
  then show ?thesis
    using ch m by (simp add: pad_tb_err_nth)
qed

lemma lone_err_other:
  assumes "c < NUM_CHANNELS" and "c \<noteq> 0"
  shows "pad_tb_err lone_tables ! c = None"
proof -
  have "pad_mask lone_tables c"
    using assms by (simp add: pad_mask_def col_hit_def lone_tables_def)
  then show ?thesis
    using assms(1) by (simp add: pad_tb_err_nth)
qed

lemma lone_inv_var: "list_all (\<lambda>x. x = None) (inv_var (pad_tb_err lone_tables))"
proof -
  have "inv_var (pad_tb_err lone_tables) ! c = None" if "c < NUM_CHANNELS" for c
  proof (cases "c = 0")
    case True
    then show ?thesis
      using that lone_err_0 by (simp add: inv_var_def ma_power_inv_Fin)
  next
    case False
    then show ?thesis
      using that lone_err_other [of c] by (simp add: inv_var_def ma_power_def)
  qed
  then show ?thesis
    by (simp add: list_all_length inv_var_def)
qed

lemma all_masked_weights:
  assumes "list_all (\<lambda>x. x = None) (inv_var errs)"
  shows "ma_sum (pad_tb_weights errs) = None"
proof -
  have "ma_sum (inv_var errs) = None"
    using assms by (simp add: ma_sum_def)
  then have "pad_tb_weights errs = map (\<lambda>x. None) (inv_var errs)"
    by (simp add: pad_tb_weights_def ma_divide_def split: option.splits)
  then show ?thesis
    by (simp add: ma_sum_def list_all_iff)
qed

text \<open>
  C6, as claimed: in every run the weights sum to 1 over the valid channels. In the run
  \<open>lone_run\<close> pad 0 has a hit in both events, so it passes the mask; its time bucket is
  5 both times, so its standard error is 0, \<open>pad_tb_err**-2\<close> is infinite there and is
  masked. Every weight of the run is masked and their sum is not 1.
\<close>

theorem C6_only_zero_error_channel_counterexample:
  "run_results lone_run = Inr lone_tables
   \<and> \<not> pad_mask lone_tables 0
   \<and> pad_tb_err lone_tables ! 0 = Some (Fin 0)
   \<and> ma_sum (pad_tb_weights (pad_tb_err lone_tables)) \<noteq> Some 1"
proof -
  have ch: "0 < NUM_CHANNELS" by (simp add: NUM_CHANNELS_def)
  have "\<not> pad_mask lone_tables 0"
    using ch by (simp add: pad_mask_def col_hit_def lone_tables_def)
  moreover have "ma_sum (pad_tb_weights (pad_tb_err lone_tables)) = None"
    using lone_inv_var by (rule all_masked_weights)
  ultimately show ?thesis
    using lone_run_results lone_err_0 by simp
qed

lemma inv_var_mask_zero_error:
  assumes "d < length errs" and "errs ! d = Some (Fin 0)"
  shows "inv_var (errs[d := None]) = inv_var errs"
proof -
  have "inv_var (errs[d := None]) = (inv_var errs)[d := ma_power None (- 2)]"
    by (simp add: inv_var_def map_update)
  also have "ma_power None (- 2) = inv_var errs ! d"
    using assms by (simp add: inv_var_def ma_power_inv_Fin) (simp add: ma_power_def)
  finally show ?thesis
    by simp
qed

text \<open>
  C4. A channel that passes the mask with standard error 0 raises nothing: the statistics
  of the run are computed once the event loop has completed. Its weight is masked, and the
  weights of all channels and the run-wide average are those obtained with this channel
  masked from the start.
\<close>

theorem C4_zero_error_channel_is_left_out:
  assumes "run_results rf = Inr tables" and "d < NUM_CHANNELS"
    and "pad_tb_err tables ! d = Some (Fin 0)"
  shows "pulser_file rf = Inr (run_stats tables)
    \<and> \<not> pad_mask tables d
    \<and> pad_tb_weights (pad_tb_err tables) ! d = None
    \<and> pad_tb_weights (pad_tb_err tables) = pad_tb_weights ((pad_tb_err tables)[d := None])
    \<and> run_tb_avg (pad_tb_avg tables) (pad_tb_err tables)
        = run_tb_avg (pad_tb_avg tables) ((pad_tb_err tables)[d := None])"
proof -
  have d: "d < length (pad_tb_err tables)"
    using assms(2) by simp
  have same: "inv_var ((pad_tb_err tables)[d := None]) = inv_var (pad_tb_err tables)"
    using d assms(3) by (rule inv_var_mask_zero_error)
  have w: "pad_tb_weights ((pad_tb_err tables)[d := None]) = pad_tb_weights (pad_tb_err tables)"
    by (simp add: pad_tb_weights_def same)
  have "inv_var (pad_tb_err tables) ! d = None"
    using d assms(3) by (simp add: inv_var_def ma_power_inv_Fin)
  then have wd: "pad_tb_weights (pad_tb_err tables) ! d = None"
    using d by (simp add: pad_tb_weights_def inv_var_def ma_divide_def)
  have m: "\<not> pad_mask tables d"
    using assms(2,3) by (auto simp: pad_tb_err_nth split: if_splits)
  have "pulser_file rf = Inr (run_stats tables)"
    using assms(1) by (simp add: pulser_file_def)
  with m wd w show ?thesis
    by (simp add: run_tb_avg_def)
qed

lemma steady_run_results: "run_results steady_run = Inr steady_tables"
  by (simp add: run_results_def num_events_def steady_run_def steady_tables_def event_results_at_def
      pad_times_def pad_step_def row_of_def py_int_def Let_def NUM_CHANNELS_def upt_conv_Cons)

lemma steady_err_0: "pad_tb_err steady_tables ! 0 = Some (Fin 0)"
proof -
  have ch: "0 < NUM_CHANNELS" by (simp add: NUM_CHANNELS_def)
  have m: "\<not> pad_mask steady_tables 0"
    using ch by (simp add: pad_mask_def col_hit_def steady_tables_def)
  have "sem (map (filled 0) (pad_tb_ma steady_tables 0)) = Fin 0"
    using ch m by (simp add: pad_tb_ma_def col_tb_def steady_tables_def sem_def filled_def)
  then show ?thesis
    using ch m by (simp add: pad_tb_err_nth)
qed

lemma steady_err_1: "pad_tb_err steady_tables ! 1 = Some (Fin 1)"
proof -
  have ch: "1 < NUM_CHANNELS" by (simp add: NUM_CHANNELS_def)
  have m: "\<not> pad_mask steady_tables 1"
    using ch by (simp add: pad_mask_def col_hit_def steady_tables_def)
  have "sem (map (filled 0) (pad_tb_ma steady_tables 1)) = Fin 1"
    using ch m by (simp add: pad_tb_ma_def col_tb_def steady_tables_def sem_def filled_def power2_eq_square)
  then show ?thesis
    using ch m by (simp add: pad_tb_err_nth)
qed

theorem C4_zero_error_channel_witness:
  "run_results steady_run = Inr steady_tables
   \<and> pad_tb_err steady_tables ! 0 = Some (Fin 0)
   \<and> pad_tb_err steady_tables ! 1 = Some (Fin 1)
   \<and> pulser_file steady_run = Inr (run_stats steady_tables)
   \<and> pad_tb_weights (pad_tb_err steady_tables) ! 0 = None
   \<and> pad_tb_weights (pad_tb_err steady_tables)
        = pad_tb_weights ((pad_tb_err steady_tables)[0 := None])"
proof -
  have ch: "0 < NUM_CHANNELS" by (simp add: NUM_CHANNELS_def)
  show ?thesis
    using C4_zero_error_channel_is_left_out [OF steady_run_results ch steady_err_0]
      steady_run_results steady_err_0 steady_err_1
    by blast
qed

section \<open>Properties of time\_correction\_calculator\<close>

lemma quiet_run_results: "run_results quiet_run = Inr quiet_tables"
  by (simp add: run_results_def num_events_def quiet_run_def quiet_tables_def event_results_at_def)

lemma quiet_stats: "p < NUM_CHANNELS \<Longrightarrow> run_stats quiet_tables ! p = (Fin 0, Fin 0, Fin 0)"
  by (rule masked_channel_stats) (simp_all add: pad_mask_def col_hit_def quiet_tables_def)

lemma quiet_slice: "run_slice quiet_ws 373 = Inr (run_stats quiet_tables)"
  by (simp add: run_slice_def pulser_results_def quiet_ws_def pulser_file_def quiet_run_results)

lemma missing_slice: "run_slice quiet_ws 374 = Inr (replicate NUM_CHANNELS (NaN, NaN, NaN))"
  by (simp add: run_slice_def pulser_results_def quiet_ws_def)

lemma upto_373_374: "[373..374] = [373, 374::int]"
  by (simp add: upto.simps)

lemma upto_373_373: "[373..373] = [373::int]"
  by (simp add: upto.simps)

lemma pads_Cons: "[0..<NUM_CHANNELS] = 0 # [Suc 0..<NUM_CHANNELS]"
  by (rule upt_conv_Cons) (simp add: NUM_CHANNELS_def)

text \<open>
  C2. The claim: a run without a point-cloud file contributes nothing and the batch goes
  on. \<open>pulser_results\<close> returns \<open>None\<close> for such a run, and the caller assigns it to
  the run's slice of \<open>results\<close> unchecked, which fills the slice with \<open>nan\<close>. For the
  runs 373 and 374 with no file for 374, the slice of run 374 is \<open>nan\<close> for every pad;
  the amplitudes of pad 0 are 0.0 and \<open>nan\<close>, their sum is not 0.0, so the pad is fitted
  on data holding \<open>nan\<close>; with a fit that raises on \<open>nan\<close> the batch stops at pad 0.
\<close>

theorem C2_missing_run_fills_slice_with_nan:
  "results quiet_ws 373 374 = Inr [run_stats quiet_tables, replicate NUM_CHANNELS (NaN, NaN, NaN)]
   \<and> stat_amp [run_stats quiet_tables, replicate NUM_CHANNELS (NaN, NaN, NaN)] 0 = [Fin 0, NaN]
   \<and> time_correction_calculator nan_raising_fit quiet_ws 373 374 True = Inl FitError"
proof -
  let ?res = "[run_stats quiet_tables, replicate NUM_CHANNELS (NaN, NaN, NaN)]"
  have ch: "0 < NUM_CHANNELS" by (simp add: NUM_CHANNELS_def)
  have res: "results quiet_ws 373 374 = Inr ?res"
    by (simp add: results_def upto_373_374 quiet_slice missing_slice)
  have amps: "stat_amp ?res 0 = [Fin 0, NaN]"
    using ch by (simp add: stat_amp_def quiet_stats)
  have "fit_pad nan_raising_fit ?res 0 = Inl FitError"
    by (simp add: fit_pad_def amps np_sum_def fl_add_def fl_eq_def nan_raising_fit_def)
  then have "for_each (fit_pad nan_raising_fit ?res) [0..<NUM_CHANNELS] = Inl FitError"
    by (simp add: pads_Cons)
  then have "time_correction_calculator nan_raising_fit quiet_ws 373 374 True = Inl FitError"
    by (simp add: time_correction_calculator_def res)
  with res amps show ?thesis by simp
qed

text \<open>
  C7. A pad whose amplitudes over all runs of the range sum to exactly zero is not fitted:
  its row is (0, 0) whatever the fit would do, also in the table that is written.
\<close>

theorem C7_zero_amplitude_pad_is_skipped:
  assumes "results ws run_min run_max = Inr res" and "p < NUM_CHANNELS"
    and "np_sum (stat_amp res p) = Fin 0"
  shows "fit_pad fit res p = Inr (Fin 0, Fin 0)
    \<and> (\<forall>out. time_correction_calculator fit ws run_min run_max write_raw = Inr out
          \<longrightarrow> fits_file out ! p = (Fin 0, Fin 0))"
proof -
  have skip: "fit_pad fit res p = Inr (Fin 0, Fin 0)"
    using assms(3) by (simp add: fit_pad_def fl_eq_def)
  have "fits_file out ! p = (Fin 0, Fin 0)"
    if "time_correction_calculator fit ws run_min run_max write_raw = Inr out" for out
  proof -
    have "(case for_each (fit_pad fit res) [0..<NUM_CHANNELS] of
             Inl e \<Rightarrow> Inl e
           | Inr fit_results \<Rightarrow>
               Inr \<lparr>raw_file = (if write_raw then Some res else None),
                    fits_file = fit_results\<rparr>) = Inr out"
      using that by (simp add: time_correction_calculator_def assms(1))
    then obtain fr where fr: "for_each (fit_pad fit res) [0..<NUM_CHANNELS] = Inr fr"
      and out: "fits_file out = fr"
      by (cases "for_each (fit_pad fit res) [0..<NUM_CHANNELS]") auto
    have "fit_pad fit res ([0..<NUM_CHANNELS] ! p) = Inr (fr ! p)"
      using fr by (rule for_each_nth) (simp add: assms(2))
    then show ?thesis
      using skip assms(2) out by simp
  qed
  with skip show ?thesis by blast
qed

lemma quiet_results: "results quiet_ws 373 373 = Inr [run_stats quiet_tables]"
  by (simp add: results_def upto_373_373 quiet_slice)

lemma quiet_amp_sum: "p < NUM_CHANNELS \<Longrightarrow> np_sum (stat_amp [run_stats quiet_tables] p) = Fin 0"
  by (simp add: stat_amp_def quiet_stats np_sum_def fl_add_def)

lemma quiet_calculator:
  "time_correction_calculator raising_fit quiet_ws 373 373 False
     = Inr \<lparr>raw_file = None, fits_file = map (\<lambda>p. (Fin 0, Fin 0)) [0..<NUM_CHANNELS]\<rparr>"
proof -
  have "for_each (fit_pad raising_fit [run_stats quiet_tables]) [0..<NUM_CHANNELS]
      = Inr (map (\<lambda>p. (Fin 0, Fin 0)) [0..<NUM_CHANNELS])"
    by (rule for_each_map) (simp add: fit_pad_def quiet_amp_sum fl_eq_def)
  then show ?thesis
    by (simp add: time_correction_calculator_def quiet_results)
qed

theorem C7_zero_amplitude_pad_witness:
  "results quiet_ws 373 373 = Inr [run_stats quiet_tables]
   \<and> np_sum (stat_amp [run_stats quiet_tables] 5) = Fin 0
   \<and> fit_pad raising_fit [run_stats quiet_tables] 5 = Inr (Fin 0, Fin 0)
   \<and> map_sum id (\<lambda>out. fits_file out ! 5) (time_correction_calculator raising_fit quiet_ws 373 373 False)
       = Inr (Fin 0, Fin 0)"
proof -
  have ch: "5 < NUM_CHANNELS" by (simp add: NUM_CHANNELS_def)
  have sum0: "np_sum (stat_amp [run_stats quiet_tables] 5) = Fin 0"
    using ch by (rule quiet_amp_sum)
  have "fit_pad raising_fit [run_stats quiet_tables] 5 = Inr (Fin 0, Fin 0)"
    using C7_zero_amplitude_pad_is_skipped [OF quiet_results ch sum0] by blast
  moreover have "fits_file \<lparr>raw_file = None, fits_file = map (\<lambda>p. (Fin 0, Fin 0)) [0..<NUM_CHANNELS]\<rparr> ! 5
      = (Fin 0, Fin 0)"
    using C7_zero_amplitude_pad_is_skipped [OF quiet_results ch sum0] quiet_calculator by blast
  ultimately show ?thesis
    using quiet_results sum0 by (simp add: quiet_calculator)
qed

text \<open>
  C8. A pad that is fitted has its fit called with the weights \<open>fit_weights\<close> of its
  errors: at each run position the weight is 1.0 where the error equals 0.0, and
  \<open>1.0 / sqrt(error)\<close> elsewhere, which is \<open>1 / sqrt e\<close> for a positive error \<open>e\<close>.
\<close>

theorem C8_fit_weights:
  assumes "\<not> fl_eq (np_sum (stat_amp res p)) (Fin 0)" and "i < length res"
  shows "fit_pad fit res p = fit (stat_amp res p) (stat_tb res p) (fit_weights (stat_err res p))
    \<and> length (fit_weights (stat_err res p)) = length res
    \<and> fit_weights (stat_err res p) ! i =
        (if fl_eq (stat_err res p ! i) (Fin 0) then Fin 1 else fl_recip (fl_sqrt (stat_err res p ! i)))
    \<and> (\<forall>e. stat_err res p ! i = Fin e \<and> 0 < e \<longrightarrow> fit_weights (stat_err res p) ! i = Fin (1 / sqrt e))"
proof -
  have called: "fit_pad fit res p = fit (stat_amp res p) (stat_tb res p) (fit_weights (stat_err res p))"
    using assms(1) by (simp add: fit_pad_def)
  have len: "length (fit_weights (stat_err res p)) = length res"
    by (simp add: fit_weights_def stat_err_def Let_def)
  have i: "i < length (stat_err res p)"
    using assms(2) by (simp add: stat_err_def)
  then have w: "fit_weights (stat_err res p) ! i =
        (if fl_eq (stat_err res p ! i) (Fin 0) then Fin 1 else fl_recip (fl_sqrt (stat_err res p ! i)))"
    by (simp add: fit_weights_def Let_def)
  have pos: "\<forall>e. stat_err res p ! i = Fin e \<and> 0 < e \<longrightarrow> fit_weights (stat_err res p) ! i = Fin (1 / sqrt e)"
    by (simp add: w fl_eq_def fl_sqrt_def fl_recip_def)
  from called len w pos show ?thesis by blast
qed

theorem C8_fit_weights_witness:
  "\<not> fl_eq (np_sum (stat_amp two_runs 0)) (Fin 0)
   \<and> stat_err two_runs 0 = [Fin 4, Fin 0]
   \<and> fit_weights (stat_err two_runs 0) ! 0 = Fin (1 / sqrt 4)
   \<and> fit_weights (stat_err two_runs 0) ! 1 = Fin 1
   \<and> fit_pad raising_fit two_runs 0 = raising_fit [Fin 2, Fin 5] [Fin 1, Fin 3] [Fin (1 / 2), Fin 1]"
proof -
  have ne: "\<not> fl_eq (np_sum (stat_amp two_runs 0)) (Fin 0)"
    by (simp add: stat_amp_def two_runs_def np_sum_def fl_add_def fl_eq_def)
  have errs: "stat_err two_runs 0 = [Fin 4, Fin 0]"
    by (simp add: stat_err_def two_runs_def)
  have l0: "0 < length two_runs" and l1: "1 < length two_runs"
    by (simp_all add: two_runs_def)
  have w0: "fit_weights (stat_err two_runs 0) ! 0 = Fin (1 / sqrt 4)"
    using C8_fit_weights [OF ne l0, of raising_fit] errs
    by (simp add: fl_eq_def fl_sqrt_def fl_recip_def)
  have w1: "fit_weights (stat_err two_runs 0) ! 1 = Fin 1"
    using C8_fit_weights [OF ne l1, of raising_fit] errs by (simp add: fl_eq_def)
  have "fit_weights (stat_err two_runs 0) = [Fin (1 / 2), Fin 1]"
    by (simp add: errs fit_weights_def fl_sqrt_def fl_recip_def fl_eq_def)
  moreover have "fit_pad raising_fit two_runs 0
      = raising_fit (stat_amp two_runs 0) (stat_tb two_runs 0) (fit_weights (stat_err two_runs 0))"
    using C8_fit_weights [OF ne l0, of raising_fit] by blast
  ultimately have "fit_pad raising_fit two_runs 0
      = raising_fit [Fin 2, Fin 5] [Fin 1, Fin 3] [Fin (1 / 2), Fin 1]"
    by (simp add: stat_amp_def stat_tb_def two_runs_def)
  with ne errs w0 w1 show ?thesis by blast
qed

end
